theory Spec2Isabelle
  imports Complex_Main
begin

section \<open>GPU vector index facade (python-ai/tdbai/vector_gpu.py)\<close>

text \<open>
  The module wraps the FAISS library. FAISS and numpy are external: their functions enter
  the model as the fields of a record of library operations, and every theorem below that
  is not a concrete run holds for all such records. The facade's own code (the state flag,
  the mock branch taken when the library cannot be imported, dtype conversion, the
  post-filter loop, save and load) is modelled as written.
\<close>

subsection \<open>Exceptions\<close>

datatype error =
    ValueError string
  | AttributeError string
  | IndexError string
  | LibraryError string  \<comment> \<open>an exception raised inside a FAISS call\<close>

definition untrained_error :: error where
  "untrained_error = ValueError ''Index must be trained before adding vectors''"

definition negative_dimensions :: error where
  "negative_dimensions = ValueError ''negative dimensions are not allowed''"

definition none_has_no_nprobe :: error where
  "none_has_no_nprobe = AttributeError ''NoneType object has no attribute nprobe''"

subsection \<open>numpy arrays\<close>

datatype dtype = Float32 | Float64 | Int64

text \<open>
  A two-dimensional array: its element type tag, whether its memory layout is
  C-contiguous (a slice or a transpose of another array is not), and its rows.
\<close>

record 'a ndarray =
  dtype :: dtype
  c_contiguous :: bool
  rows :: "'a list list"

text \<open>
  Arrays are objects; caller and callee share them by reference. The heap holds them by
  address: reading is \<open>h ! a\<close>, writing in place is \<open>h[a := v]\<close>, allocation appends.
  Every array of the heap owns its data; the theorems about a write in place speak of the
  array that is written.
\<close>

type_synonym 'a heap = "'a ndarray list"

text \<open>A floating-point result value: a number or \<open>np.inf\<close>.\<close>

datatype 'a fl = Num 'a | PosInf

text \<open>\<open>np.zeros((n, k))\<close> and \<open>np.full((n, k), v)\<close>: a negative dimension raises.\<close>

definition np_full :: "nat \<Rightarrow> int \<Rightarrow> 'b \<Rightarrow> error + 'b list list" where
  "np_full n k v =
     (if k < 0 then Inl negative_dimensions
      else Inr (replicate n (replicate (nat k) v)))"

text \<open>\<open>np.isin(indices, filter_ids)\<close>: element-wise membership, same shape.\<close>

definition np_isin :: "int list list \<Rightarrow> int list \<Rightarrow> bool list list" where
  "np_isin indices filter_ids = map (map (\<lambda>x. x \<in> set filter_ids)) indices"

text \<open>\<open>a[i]\<close> on the first axis.\<close>

definition get_row :: "'b list list \<Rightarrow> nat \<Rightarrow> error + 'b list" where
  "get_row a i =
     (if i < length a then Inr (a ! i)
      else Inl (IndexError ''index is out of bounds for axis 0''))"

text \<open>\<open>row[mask]\<close> with a boolean mask: the lengths must agree.\<close>

definition bool_index :: "'b list \<Rightarrow> bool list \<Rightarrow> error + 'b list" where
  "bool_index row msk =
     (if length msk \<noteq> length row
      then Inl (IndexError ''boolean index did not match indexed array'')
      else Inr (map fst (filter snd (zip row msk))))"

subsection \<open>Configuration and library operations\<close>

record GPUIndexConfig =
  dim :: int
  nlist :: int
  m :: int
  nbits :: int
  nprobe :: int
  use_float16 :: bool
  num_gpus :: int

definition default_config :: "int \<Rightarrow> GPUIndexConfig" where
  "default_config d =
     \<lparr>dim = d, nlist = 16384, m = 64, nbits = 8, nprobe = 128,
      use_float16 = True, num_gpus = 1\<rparr>"

text \<open>\<open>faiss.StandardGpuResources\<close> with its temporary-memory setting.\<close>

datatype gpu_res = StandardGpuResources int

record cloner_options =
  shard :: bool
  useFloat16 :: bool

text \<open>
  The library. A FAISS index object is mutated in place by \<open>train\<close> and \<open>add\<close>: these
  return the object's new value together with the exception raised, if any. \<open>'idx\<close> is a
  CPU index, \<open>'gidx\<close> a GPU index, \<open>'fs\<close> the file system. \<open>astype_float32\<close> is numpy's
  \<open>x.astype(np.float32)\<close>: it returns a new array. \<open>normalize_L2\<close> is given the array
  object: it either raises (FAISS refuses an array that is not C-contiguous) and leaves
  the array as it was, or yields the rows it writes into the array.
\<close>

record ('a, 'idx, 'gidx, 'fs) library =
  FAISS_AVAILABLE :: bool
  astype_float32 :: "'a ndarray \<Rightarrow> 'a ndarray"
  normalize_L2 :: "'a ndarray \<Rightarrow> string + 'a list list"
  IndexIVFPQ :: "int \<Rightarrow> int \<Rightarrow> int \<Rightarrow> int \<Rightarrow> string + 'idx"
  index_train :: "'idx \<Rightarrow> 'a list list \<Rightarrow> string option \<times> 'idx"
  index_add :: "'idx \<Rightarrow> 'a list list \<Rightarrow> string option \<times> 'idx"
  index_add_with_ids :: "'idx \<Rightarrow> 'a list list \<Rightarrow> int list \<Rightarrow> string option \<times> 'idx"
  index_ntotal :: "'idx \<Rightarrow> int"
  index_cpu_to_gpu_multiple_py :: "gpu_res list \<Rightarrow> 'idx \<Rightarrow> cloner_options \<Rightarrow> string + 'gidx"
  set_nprobe :: "'gidx \<Rightarrow> int \<Rightarrow> 'gidx"
  gpu_search :: "'gidx \<Rightarrow> 'a list list \<Rightarrow> int \<Rightarrow> string + ('a fl list list \<times> int list list)"
  write_index :: "'idx \<Rightarrow> string \<Rightarrow> 'fs \<Rightarrow> string option \<times> 'fs"
  read_index :: "string \<Rightarrow> 'fs \<Rightarrow> string + 'idx"

subsection \<open>The index object\<close>

text \<open>
  The attributes of a \<open>GPUVectorIndex\<close>. \<open>mock_vectors\<close> exists only when the library is
  unavailable; \<open>cpu_index\<close> and \<open>co\<close> only when it is available (\<open>None\<close>: the attribute
  was never set). \<open>gpu_index\<close> is \<open>None\<close> until the first synchronisation.
\<close>

record ('a, 'idx, 'gidx) GPUVectorIndex =
  config :: GPUIndexConfig
  index_dim :: int
  is_trained :: bool
  mock_vectors :: "'a list list"
  gpu_resources :: "gpu_res list"
  cpu_index :: "'idx option"
  co :: "cloner_options option"
  gpu_index :: "'gidx option"


type_synonym ('a, 'idx, 'gidx) index = "('a, 'idx, 'gidx) GPUVectorIndex"

text \<open>
  The result of a method call: what it returns or raises, the object afterwards, and the
  array heap afterwards.
\<close>

type_synonym ('r, 'a, 'idx, 'gidx) outcome =
  "(error + 'r) \<times> ('a, 'idx, 'gidx) index \<times> 'a heap"

definition missing_attribute :: "string \<Rightarrow> error" where
  "missing_attribute name = AttributeError name"

text \<open>\<open>__init__\<close>: the constructor. Without the library only the mock list is set up.\<close>

definition init ::
  "('a, 'idx, 'gidx, 'fs) library \<Rightarrow> GPUIndexConfig \<Rightarrow> error + ('a, 'idx, 'gidx) index" where
  "init L cfg =
     (let self = \<lparr>config = cfg, index_dim = dim cfg, is_trained = False,
                  mock_vectors = [], gpu_resources = [], cpu_index = None, co = None,
                  gpu_index = None\<rparr>
      in if \<not> FAISS_AVAILABLE L then Inr self
         else
           (case IndexIVFPQ L (dim cfg) (nlist cfg) (m cfg) (nbits cfg) of
              Inl e \<Rightarrow> Inl (LibraryError e)
            | Inr ix \<Rightarrow>
                Inr (self\<lparr>gpu_resources :=
                             replicate (nat (num_gpus cfg))
                               (StandardGpuResources (1024 * 1024 * 1024)),
                          cpu_index := Some ix,
                          co := Some \<lparr>shard = True, useFloat16 = use_float16 cfg\<rparr>,
                          gpu_index := None\<rparr>)))"

text \<open>
  \<open>_sync_to_gpu\<close>: clones the CPU index to the devices, when there is at least one GPU
  resource; otherwise it does nothing and \<open>gpu_index\<close> keeps its value.
\<close>

definition sync_to_gpu ::
  "('a, 'idx, 'gidx, 'fs) library \<Rightarrow> ('a, 'idx, 'gidx) index
     \<Rightarrow> error option \<times> ('a, 'idx, 'gidx) index" where
  "sync_to_gpu L self =
     (if FAISS_AVAILABLE L \<and> gpu_resources self \<noteq> [] then
        (case cpu_index self of
           None \<Rightarrow> (Some (missing_attribute ''cpu_index''), self)
         | Some ci \<Rightarrow>
            (case co self of
               None \<Rightarrow> (Some (missing_attribute ''co''), self)
             | Some c \<Rightarrow>
                (case index_cpu_to_gpu_multiple_py L (gpu_resources self) ci c of
                   Inl e \<Rightarrow> (Some (LibraryError e), self)
                 | Inr g \<Rightarrow> (None, self\<lparr>gpu_index := Some g\<rparr>))))
      else (None, self))"

text \<open>
  \<open>if x.dtype != np.float32: x = x.astype(np.float32)\<close>: the local name is rebound to a
  fresh copy unless the array is already 32-bit float; the result is the address the
  local name then holds.
\<close>

definition as_float32 ::
  "('a, 'idx, 'gidx, 'fs) library \<Rightarrow> 'a heap \<Rightarrow> nat \<Rightarrow> 'a heap \<times> nat" where
  "as_float32 L h a =
     (if dtype (h ! a) \<noteq> Float32
      then (h @ [(astype_float32 L (h ! a))\<lparr>dtype := Float32\<rparr>], length h)
      else (h, a))"

text \<open>
  \<open>faiss.normalize_L2(x)\<close> overwrites the array it is given, or raises and leaves the
  heap as it is.
\<close>

definition normalize_in_place ::
  "('a, 'idx, 'gidx, 'fs) library \<Rightarrow> 'a heap \<Rightarrow> nat \<Rightarrow> error + 'a heap" where
  "normalize_in_place L h a =
     (case normalize_L2 L (h ! a) of
        Inl e \<Rightarrow> Inl (LibraryError e)
      | Inr r \<Rightarrow> Inr (h[a := (h ! a)\<lparr>rows := r\<rparr>]))"

definition train ::
  "('a, 'idx, 'gidx, 'fs) library \<Rightarrow> ('a, 'idx, 'gidx) index \<Rightarrow> 'a heap \<Rightarrow> nat
     \<Rightarrow> (unit, 'a, 'idx, 'gidx) outcome" where
  "train L self h vectors =
     (if \<not> FAISS_AVAILABLE L then (Inr (), self\<lparr>is_trained := True\<rparr>, h)
      else
        (let (h1, v) = as_float32 L h vectors
         in case normalize_in_place L h1 v of
              Inl e \<Rightarrow> (Inl e, self, h1)
            | Inr h2 \<Rightarrow>
           (case cpu_index self of
              None \<Rightarrow> (Inl (missing_attribute ''cpu_index''), self, h2)
            | Some ci \<Rightarrow>
               (let (err, ci') = index_train L ci (rows (h2 ! v));
                    self1 = self\<lparr>cpu_index := Some ci'\<rparr>
                in case err of
                     Some e \<Rightarrow> (Inl (LibraryError e), self1, h2)
                   | None \<Rightarrow>
                      (case sync_to_gpu L self1 of
                         (Some e, self2) \<Rightarrow> (Inl e, self2, h2)
                       | (None, self2) \<Rightarrow> (Inr (), self2\<lparr>is_trained := True\<rparr>, h2))))))"

definition add ::
  "('a, 'idx, 'gidx, 'fs) library \<Rightarrow> ('a, 'idx, 'gidx) index \<Rightarrow> 'a heap \<Rightarrow> nat
     \<Rightarrow> int list option \<Rightarrow> (unit, 'a, 'idx, 'gidx) outcome" where
  "add L self h vectors ids =
     (if \<not> is_trained self then (Inl untrained_error, self, h)
      else if \<not> FAISS_AVAILABLE L
      then (Inr (), self\<lparr>mock_vectors := mock_vectors self @ rows (h ! vectors)\<rparr>, h)
      else
        (let (h1, v) = as_float32 L h vectors
         in case normalize_in_place L h1 v of
              Inl e \<Rightarrow> (Inl e, self, h1)
            | Inr h2 \<Rightarrow>
           (case cpu_index self of
              None \<Rightarrow> (Inl (missing_attribute ''cpu_index''), self, h2)
            | Some ci \<Rightarrow>
               (let (err, ci') =
                      (case ids of
                         Some i \<Rightarrow> index_add_with_ids L ci (rows (h2 ! v)) i
                       | None \<Rightarrow> index_add L ci (rows (h2 ! v)));
                    self1 = self\<lparr>cpu_index := Some ci'\<rparr>
                in case err of
                     Some e \<Rightarrow> (Inl (LibraryError e), self1, h2)
                   | None \<Rightarrow>
                      (case sync_to_gpu L self1 of
                         (Some e, self2) \<Rightarrow> (Inl e, self2, h2)
                       | (None, self2) \<Rightarrow> (Inr (), self2, h2))))))"

text \<open>
  \<open>search\<close>. Without the library it returns zero arrays of shape \<open>(n, k)\<close>. With it, the
  queries are normalised (which may raise), \<open>nprobe\<close> is stored on the GPU index (which
  must exist) and the library searches.
\<close>

definition search ::
  "('a::zero, 'idx, 'gidx, 'fs) library \<Rightarrow> ('a, 'idx, 'gidx) index \<Rightarrow> 'a heap \<Rightarrow> nat
     \<Rightarrow> int \<Rightarrow> int option \<Rightarrow> ('a fl list list \<times> int list list, 'a, 'idx, 'gidx) outcome" where
  "search L self h queries k nprobe_arg =
     (if \<not> FAISS_AVAILABLE L then
        (let n = length (rows (h ! queries))
         in case np_full n k (Num 0) of
              Inl e \<Rightarrow> (Inl e, self, h)
            | Inr zd \<Rightarrow>
               (case np_full n k 0 of
                  Inl e \<Rightarrow> (Inl e, self, h)
                | Inr zi \<Rightarrow> (Inr (zd, zi), self, h)))
      else
        (let (h1, q) = as_float32 L h queries
         in case normalize_in_place L h1 q of
              Inl e \<Rightarrow> (Inl e, self, h1)
            | Inr h2 \<Rightarrow>
           (let np = (case nprobe_arg of None \<Rightarrow> nprobe (config self) | Some p \<Rightarrow> p)
            in case gpu_index self of
                 None \<Rightarrow> (Inl none_has_no_nprobe, self, h2)
               | Some g \<Rightarrow>
                  (let g' = set_nprobe L g np;
                       self1 = self\<lparr>gpu_index := Some g'\<rparr>
                   in case gpu_search L g' (rows (h2 ! q)) k of
                        Inl e \<Rightarrow> (Inl (LibraryError e), self1, h2)
                      | Inr r \<Rightarrow> (Inr r, self1, h2)))))"

text \<open>
  The loop of \<open>search_with_filter\<close> over the query numbers: row \<open>i\<close> of each output array
  gets the first \<open>n_valid\<close> masked values; the rest of the row keeps its fill value.
\<close>

fun filter_loop ::
  "'b list list \<Rightarrow> int list list \<Rightarrow> bool list list \<Rightarrow> int \<Rightarrow> nat list
     \<Rightarrow> 'b list list \<times> int list list \<Rightarrow> error + ('b list list \<times> int list list)" where
  "filter_loop distances indices msk k [] acc = Inr acc"
| "filter_loop distances indices msk k (i # rest) (filtered_distances, filtered_indices) =
     (case get_row msk i of
        Inl e \<Rightarrow> Inl e
      | Inr valid_mask \<Rightarrow>
     (case get_row distances i of
        Inl e \<Rightarrow> Inl e
      | Inr drow \<Rightarrow>
     (case bool_index drow valid_mask of
        Inl e \<Rightarrow> Inl e
      | Inr valid_dists \<Rightarrow>
     (case get_row indices i of
        Inl e \<Rightarrow> Inl e
      | Inr irow \<Rightarrow>
     (case bool_index irow valid_mask of
        Inl e \<Rightarrow> Inl e
      | Inr valid_ids \<Rightarrow>
         (let n_valid = nat (min (int (length valid_dists)) k)
          in filter_loop distances indices msk k rest
               (filtered_distances
                  [i := take n_valid valid_dists @ drop n_valid (filtered_distances ! i)],
                filtered_indices
                  [i := take n_valid valid_ids @ drop n_valid (filtered_indices ! i)])))))))"

definition search_with_filter ::
  "('a::zero, 'idx, 'gidx, 'fs) library \<Rightarrow> ('a, 'idx, 'gidx) index \<Rightarrow> 'a heap \<Rightarrow> nat
     \<Rightarrow> int \<Rightarrow> int list \<Rightarrow> ('a fl list list \<times> int list list, 'a, 'idx, 'gidx) outcome" where
  "search_with_filter L self h queries k filter_ids =
     (case search L self h queries (k * 10) None of
        (Inl e, self1, h1) \<Rightarrow> (Inl e, self1, h1)
      | (Inr (distances, indices), self1, h1) \<Rightarrow>
         (let msk = np_isin indices filter_ids;
              n_queries = length (rows (h1 ! queries))
          in case np_full n_queries k PosInf of
               Inl e \<Rightarrow> (Inl e, self1, h1)
             | Inr filtered_distances \<Rightarrow>
                (case np_full n_queries k (- 1) of
                   Inl e \<Rightarrow> (Inl e, self1, h1)
                 | Inr filtered_indices \<Rightarrow>
                    (case filter_loop distances indices msk k [0..<n_queries]
                            (filtered_distances, filtered_indices) of
                       Inl e \<Rightarrow> (Inl e, self1, h1)
                     | Inr r \<Rightarrow> (Inr r, self1, h1)))))"

text \<open>\<open>save\<close> writes the CPU index; without the library it does nothing.\<close>

definition save ::
  "('a, 'idx, 'gidx, 'fs) library \<Rightarrow> ('a, 'idx, 'gidx) index \<Rightarrow> string \<Rightarrow> 'fs
     \<Rightarrow> error option \<times> 'fs" where
  "save L self path fs =
     (if FAISS_AVAILABLE L then
        (case cpu_index self of
           None \<Rightarrow> (Some (missing_attribute ''cpu_index''), fs)
         | Some ci \<Rightarrow>
            (case write_index L ci path fs of
               (Some e, fs') \<Rightarrow> (Some (LibraryError e), fs')
             | (None, fs') \<Rightarrow> (None, fs')))
      else (None, fs))"

text \<open>
  \<open>load\<close> is a class method: it constructs a new object from the caller's configuration
  and, with the library, replaces its CPU index by the one read from the file.
\<close>

definition load ::
  "('a, 'idx, 'gidx, 'fs) library \<Rightarrow> string \<Rightarrow> GPUIndexConfig \<Rightarrow> 'fs
     \<Rightarrow> error + ('a, 'idx, 'gidx) index" where
  "load L path cfg fs =
     (case init L cfg of
        Inl e \<Rightarrow> Inl e
      | Inr index \<Rightarrow>
         (if FAISS_AVAILABLE L then
            (case read_index L path fs of
               Inl e \<Rightarrow> Inl (LibraryError e)
             | Inr ix \<Rightarrow>
                (case sync_to_gpu L (index\<lparr>cpu_index := Some ix\<rparr>) of
                   (Some e, index1) \<Rightarrow> Inl e
                 | (None, index1) \<Rightarrow> Inr (index1\<lparr>is_trained := True\<rparr>)))
          else Inr index))"

text \<open>\<open>__len__\<close>.\<close>

definition len ::
  "('a, 'idx, 'gidx, 'fs) library \<Rightarrow> ('a, 'idx, 'gidx) index \<Rightarrow> error + int" where
  "len L self =
     (if \<not> FAISS_AVAILABLE L then Inr (int (length (mock_vectors self)))
      else
        (case cpu_index self of
           None \<Rightarrow> Inl (missing_attribute ''cpu_index'')
         | Some ci \<Rightarrow> Inr (index_ntotal L ci)))"


subsection \<open>Filtered search as the specification words it\<close>

text \<open>
  The candidates of one query, in the order of the unfiltered result, that carry an
  allowed id; and the output row: the first \<open>k\<close> of them, then sentinels up to \<open>k\<close> slots.
\<close>

definition survivors :: "'b list \<Rightarrow> int list \<Rightarrow> int list \<Rightarrow> ('b \<times> int) list" where
  "survivors drow irow allowed = filter (\<lambda>(d, i). i \<in> set allowed) (zip drow irow)"

definition filtered_row_spec ::
  "nat \<Rightarrow> 'b \<times> int \<Rightarrow> 'b list \<Rightarrow> int list \<Rightarrow> int list \<Rightarrow> ('b \<times> int) list" where
  "filtered_row_spec k sentinel drow irow allowed =
     (let kept = take k (survivors drow irow allowed)
      in kept @ replicate (k - length kept) sentinel)"

subsection \<open>Objects built by the constructor, and GPU copies in step with the CPU index\<close>

text \<open>
  What \<open>__init__\<close> fixes from the configuration and no method changes afterwards.
\<close>

definition constructed :: "('a, 'idx, 'gidx) index \<Rightarrow> bool" where
  "constructed self \<longleftrightarrow>
     gpu_resources self =
       replicate (nat (num_gpus (config self))) (StandardGpuResources (1024 * 1024 * 1024))
     \<and> co self = Some \<lparr>shard = True, useFloat16 = use_float16 (config self)\<rparr>"

text \<open>
  The GPU index is the clone of the current CPU index, up to the \<open>nprobe\<close> stored on it
  by an earlier search; with no GPU resource there is no GPU index.
\<close>

definition in_sync ::
  "('a, 'idx, 'gidx, 'fs) library \<Rightarrow> ('a, 'idx, 'gidx) index \<Rightarrow> bool" where
  "in_sync L self \<longleftrightarrow>
     (case cpu_index self of
        None \<Rightarrow> False
      | Some ci \<Rightarrow>
         (case co self of
            None \<Rightarrow> False
          | Some c \<Rightarrow>
             (if gpu_resources self = [] then gpu_index self = None
              else
                (case index_cpu_to_gpu_multiple_py L (gpu_resources self) ci c of
                   Inl e \<Rightarrow> False
                 | Inr g \<Rightarrow>
                    (case gpu_index self of
                       None \<Rightarrow> False
                     | Some g' \<Rightarrow> \<forall>p. set_nprobe L g' p = set_nprobe L g p)))))"

subsection \<open>A program's objects, arrays and files\<close>

text \<open>
  The index objects a program holds, by address; \<open>load\<close> and the constructor add an
  object, every other call acts on one existing object.
\<close>

record ('a, 'idx, 'gidx, 'fs) world =
  objects :: "('a, 'idx, 'gidx) index list"
  arrays :: "'a heap"
  files :: 'fs

datatype call =
    New GPUIndexConfig
  | Train nat nat
  | Add nat nat "int list option"
  | Search nat nat int "int option"
  | SearchWithFilter nat nat int "int list"
  | Save nat string
  | Load string GPUIndexConfig

fun step ::
  "('a::zero, 'idx, 'gidx, 'fs) library \<Rightarrow> ('a, 'idx, 'gidx, 'fs) world \<Rightarrow> call
     \<Rightarrow> ('a, 'idx, 'gidx, 'fs) world" where
  "step L w (New cfg) =
     (case init L cfg of
        Inl e \<Rightarrow> w
      | Inr self \<Rightarrow> w\<lparr>objects := objects w @ [self]\<rparr>)"
| "step L w (Train i a) =
     (if i < length (objects w) then
        (case train L (objects w ! i) (arrays w) a of
           (r, self', h') \<Rightarrow> w\<lparr>objects := (objects w)[i := self'], arrays := h'\<rparr>)
      else w)"
| "step L w (Add i a ids) =
     (if i < length (objects w) then
        (case add L (objects w ! i) (arrays w) a ids of
           (r, self', h') \<Rightarrow> w\<lparr>objects := (objects w)[i := self'], arrays := h'\<rparr>)
      else w)"
| "step L w (Search i a k p) =
     (if i < length (objects w) then
        (case search L (objects w ! i) (arrays w) a k p of
           (r, self', h') \<Rightarrow> w\<lparr>objects := (objects w)[i := self'], arrays := h'\<rparr>)
      else w)"
| "step L w (SearchWithFilter i a k allowed) =
     (if i < length (objects w) then
        (case search_with_filter L (objects w ! i) (arrays w) a k allowed of
           (r, self', h') \<Rightarrow> w\<lparr>objects := (objects w)[i := self'], arrays := h'\<rparr>)
      else w)"
| "step L w (Save i path) =
     (if i < length (objects w) then
        (case save L (objects w ! i) path (files w) of
           (r, fs') \<Rightarrow> w\<lparr>files := fs'\<rparr>)
      else w)"
| "step L w (Load path cfg) =
     (case load L path cfg (files w) of
        Inl e \<Rightarrow> w
      | Inr self \<Rightarrow> w\<lparr>objects := objects w @ [self]\<rparr>)"

fun run ::
  "('a::zero, 'idx, 'gidx, 'fs) library \<Rightarrow> ('a, 'idx, 'gidx, 'fs) world \<Rightarrow> call list
     \<Rightarrow> ('a, 'idx, 'gidx, 'fs) world" where
  "run L w [] = w"
| "run L w (c # cs) = run L (step L w c) cs"

subsection \<open>Two instances of the library, for concrete runs\<close>

text \<open>
  \<open>no_library\<close>: the import of FAISS failed, so \<open>FAISS_AVAILABLE\<close> is false and no library
  function is ever called.
\<close>

definition no_library :: "(rat, unit, unit, unit) library" where
  "no_library =
     \<lparr>FAISS_AVAILABLE = False,
      astype_float32 = (\<lambda>x. x),
      normalize_L2 = (\<lambda>x. Inl ''faiss is not available''),
      IndexIVFPQ = (\<lambda>d nl m' nb. Inl ''faiss is not available''),
      index_train = (\<lambda>ix x. (Some ''faiss is not available'', ix)),
      index_add = (\<lambda>ix x. (Some ''faiss is not available'', ix)),
      index_add_with_ids = (\<lambda>ix x ids. (Some ''faiss is not available'', ix)),
      index_ntotal = (\<lambda>ix. 0),
      index_cpu_to_gpu_multiple_py = (\<lambda>res ix c. Inl ''faiss is not available''),
      set_nprobe = (\<lambda>g p. g),
      gpu_search = (\<lambda>g q k. Inl ''faiss is not available''),
      write_index = (\<lambda>ix path fs. (Some ''faiss is not available'', fs)),
      read_index = (\<lambda>path fs. Inl ''faiss is not available'')\<rparr>"

text \<open>
  \<open>flat_library\<close>: a small exact stand-in for FAISS over rational vectors. An index keeps
  its dimension, its cluster count, whether it is trained, and its entries; training
  needs at least as many samples as clusters; search is exhaustive by squared distance and
  pads with \<open>(PosInf, -1)\<close>; files hold indices; a copy made by \<open>astype\<close> is
  C-contiguous; normalisation refuses an array that is not C-contiguous and otherwise
  scales each row to Euclidean length one when that length is a rational number (a row
  of irrational or zero length is left as it is).
\<close>

record flat_index =
  ix_d :: int
  ix_nlist :: int
  ix_trained :: bool
  ix_entries :: "(int \<times> rat list) list"

definition nat_root :: "nat \<Rightarrow> nat option" where
  "nat_root n = find (\<lambda>k. k * k = n) [0..<Suc n]"

definition rat_root :: "rat \<Rightarrow> rat option" where
  "rat_root x =
     (case quotient_of x of
        (n, d) \<Rightarrow>
          if n < 0 then None
          else (case nat_root (nat n) of
                  None \<Rightarrow> None
                | Some a \<Rightarrow>
                   (case nat_root (nat d) of
                      None \<Rightarrow> None
                    | Some b \<Rightarrow> Some (of_nat a / of_nat b))))"

definition scale_row :: "rat list \<Rightarrow> rat list" where
  "scale_row r =
     (case rat_root (sum_list (map (\<lambda>x. x * x) r)) of
        None \<Rightarrow> r
      | Some q \<Rightarrow> if q = 0 then r else map (\<lambda>x. x / q) r)"

definition sqdist :: "rat list \<Rightarrow> rat list \<Rightarrow> rat" where
  "sqdist q v = sum_list (map (\<lambda>(a, b). (a - b) * (a - b)) (zip q v))"

definition flat_add :: "flat_index \<Rightarrow> rat list list \<Rightarrow> int list \<Rightarrow> string option \<times> flat_index" where
  "flat_add ix x ids =
     (if \<not> ix_trained ix then (Some ''index is not trained'', ix)
      else (None, ix\<lparr>ix_entries := ix_entries ix @ zip ids x\<rparr>))"

definition flat_row :: "flat_index \<Rightarrow> nat \<Rightarrow> rat list \<Rightarrow> (rat fl \<times> int) list" where
  "flat_row ix k q =
     (let found = take k (sort_key fst (map (\<lambda>(i, v). (sqdist q v, i)) (ix_entries ix)))
      in map (\<lambda>(d, i). (Num d, i)) found @ replicate (k - length found) (PosInf, - 1))"

definition flat_search ::
  "flat_index \<times> int \<Rightarrow> rat list list \<Rightarrow> int \<Rightarrow> string + (rat fl list list \<times> int list list)" where
  "flat_search g qs k =
     (if k \<le> 0 then Inl ''k must be positive''
      else Inr (map (\<lambda>q. map fst (flat_row (fst g) (nat k) q)) qs,
                map (\<lambda>q. map snd (flat_row (fst g) (nat k) q)) qs))"

definition flat_library ::
  "(rat, flat_index, flat_index \<times> int, string \<Rightarrow> flat_index option) library" where
  "flat_library =
     \<lparr>FAISS_AVAILABLE = True,
      astype_float32 = (\<lambda>x. x\<lparr>c_contiguous := True\<rparr>),
      normalize_L2 = (\<lambda>x.
        if c_contiguous x then Inr (map scale_row (rows x))
        else Inl ''array is not C-contiguous''),
      IndexIVFPQ = (\<lambda>d nl m' nb.
        if m' \<noteq> 0 \<and> d mod m' = 0
        then Inr \<lparr>ix_d = d, ix_nlist = nl, ix_trained = False, ix_entries = []\<rparr>
        else Inl ''the dimension must be a multiple of m''),
      index_train = (\<lambda>ix x.
        if int (length x) < ix_nlist ix
        then (Some ''fewer training points than clusters'', ix)
        else (None, ix\<lparr>ix_trained := True\<rparr>)),
      index_add = (\<lambda>ix x.
        flat_add ix x (map int [length (ix_entries ix)..<length (ix_entries ix) + length x])),
      index_add_with_ids = flat_add,
      index_ntotal = (\<lambda>ix. int (length (ix_entries ix))),
      index_cpu_to_gpu_multiple_py = (\<lambda>res ix c. Inr (ix, 1)),
      set_nprobe = (\<lambda>g p. (fst g, p)),
      gpu_search = flat_search,
      write_index = (\<lambda>ix path fs. (None, fs(path \<mapsto> ix))),
      read_index = (\<lambda>path fs.
        case fs path of None \<Rightarrow> Inl ''could not open file'' | Some ix \<Rightarrow> Inr ix)\<rparr>"

definition small_config :: GPUIndexConfig where
  "small_config =
     \<lparr>dim = 2, nlist = 2, m = 1, nbits = 8, nprobe = 1, use_float16 = True, num_gpus = 1\<rparr>"

text \<open>
  A heap of three arrays: address 0 a float32 batch, address 1 a float64 batch, address 2
  a float32 query.
\<close>

definition small_heap :: "rat heap" where
  "small_heap =
     [\<lparr>dtype = Float32, c_contiguous = True, rows = [[3, 4], [0, 2], [4, 3]]\<rparr>,
      \<lparr>dtype = Float64, c_contiguous = True, rows = [[3, 4], [0, 2]]\<rparr>,
      \<lparr>dtype = Float32, c_contiguous = True, rows = [[1, 0]]\<rparr>]"

text \<open>
  A heap whose one array is a float32 slice of a larger array, hence not C-contiguous.
\<close>

definition strided_heap :: "rat heap" where
  "strided_heap = [\<lparr>dtype = Float32, c_contiguous = False, rows = [[3, 4], [0, 2]]\<rparr>]"

text \<open>
  The object \<open>GPUVectorIndex(small_config)\<close> with the stand-in library; the same object
  after \<open>train\<close> and \<open>add\<close> on the array at address 0; and the heap after those calls.
\<close>

definition fresh_index :: "(rat, flat_index, flat_index \<times> int) index" where
  "fresh_index =
     \<lparr>config = small_config, index_dim = 2, is_trained = False, mock_vectors = [],
      gpu_resources = [StandardGpuResources (1024 * 1024 * 1024)],
      cpu_index = Some \<lparr>ix_d = 2, ix_nlist = 2, ix_trained = False, ix_entries = []\<rparr>,
      co = Some \<lparr>shard = True, useFloat16 = True\<rparr>,
      gpu_index = None\<rparr>"

definition populated_entries :: "(int \<times> rat list) list" where
  "populated_entries = [(0, [3 / 5, 4 / 5]), (1, [0, 1]), (2, [4 / 5, 3 / 5])]"

definition populated_cpu :: flat_index where
  "populated_cpu =
     \<lparr>ix_d = 2, ix_nlist = 2, ix_trained = True, ix_entries = populated_entries\<rparr>"

definition populated_index :: "(rat, flat_index, flat_index \<times> int) index" where
  "populated_index =
     fresh_index\<lparr>is_trained := True, cpu_index := Some populated_cpu,
                 gpu_index := Some (populated_cpu, 1)\<rparr>"

definition populated_heap :: "rat heap" where
  "populated_heap =
     [\<lparr>dtype = Float32, c_contiguous = True, rows = [[3 / 5, 4 / 5], [0, 1], [4 / 5, 3 / 5]]\<rparr>,
      \<lparr>dtype = Float64, c_contiguous = True, rows = [[3, 4], [0, 2]]\<rparr>,
      \<lparr>dtype = Float32, c_contiguous = True, rows = [[1, 0]]\<rparr>]"


text \<open>
  Without the library: the object \<open>GPUVectorIndex(GPUIndexConfig(dim=4))\<close>, and the same
  object once trained.
\<close>

definition mock_fresh :: "(rat, unit, unit) index" where
  "mock_fresh =
     \<lparr>config = default_config 4, index_dim = 4, is_trained = False, mock_vectors = [],
      gpu_resources = [], cpu_index = None, co = None, gpu_index = None\<rparr>"

definition mock_trained :: "(rat, unit, unit) index" where
  "mock_trained = mock_fresh\<lparr>is_trained := True\<rparr>"

text \<open>The stand-in object after \<open>train\<close> on the array at address 0, before any \<open>add\<close>.\<close>

definition trained_cpu :: flat_index where
  "trained_cpu = \<lparr>ix_d = 2, ix_nlist = 2, ix_trained = True, ix_entries = []\<rparr>"

definition trained_index :: "(rat, flat_index, flat_index \<times> int) index" where
  "trained_index =
     fresh_index\<lparr>is_trained := True, cpu_index := Some trained_cpu,
                 gpu_index := Some (trained_cpu, 1)\<rparr>"

text \<open>
  A program that holds one freshly constructed index and the three arrays; the same
  program after it has trained the index; and a sequence of further calls: \<open>add\<close>, both
  searches, \<open>save\<close>, \<open>load\<close>, and a \<open>train\<close> that fails for lack of samples.
\<close>

definition fresh_world ::
  "(rat, flat_index, flat_index \<times> int, string \<Rightarrow> flat_index option) world" where
  "fresh_world = \<lparr>objects = [fresh_index], arrays = small_heap, files = Map.empty\<rparr>"

definition trained_world ::
  "(rat, flat_index, flat_index \<times> int, string \<Rightarrow> flat_index option) world" where
  "trained_world = \<lparr>objects = [trained_index], arrays = populated_heap, files = Map.empty\<rparr>"

definition later_calls :: "call list" where
  "later_calls =
     [Add 0 0 None, Search 0 2 2 None, SearchWithFilter 0 2 1 [1, 2, 7],
      Save 0 ''index.bin'', Load ''index.bin'' small_config, Train 0 2]"


text \<open>
  An index constructed for dimension 128 with the stand-in library, the file system after
  saving it, and the object that \<open>load\<close> returns for that file and a configuration of
  dimension 64.
\<close>

definition wide_cpu :: flat_index where
  "wide_cpu = \<lparr>ix_d = 128, ix_nlist = 16384, ix_trained = False, ix_entries = []\<rparr>"

definition wide_index :: "(rat, flat_index, flat_index \<times> int) index" where
  "wide_index =
     \<lparr>config = default_config 128, index_dim = 128, is_trained = False, mock_vectors = [],
      gpu_resources = [StandardGpuResources (1024 * 1024 * 1024)],
      cpu_index = Some wide_cpu,
      co = Some \<lparr>shard = True, useFloat16 = True\<rparr>,
      gpu_index = None\<rparr>"

definition wide_files :: "string \<Rightarrow> flat_index option" where
  "wide_files = snd (save flat_library wide_index ''index.bin'' Map.empty)"

definition narrow_loaded :: "(rat, flat_index, flat_index \<times> int) index" where
  "narrow_loaded =
     \<lparr>config = default_config 64, index_dim = 64, is_trained = True, mock_vectors = [],
      gpu_resources = [StandardGpuResources (1024 * 1024 * 1024)],
      cpu_index = Some wide_cpu,
      co = Some \<lparr>shard = True, useFloat16 = True\<rparr>,
      gpu_index = Some (wide_cpu, 1)\<rparr>"

text \<open>
  The file system after saving the populated index; a configuration that differs from
  the index's own in dimension and cluster count only, and the object that \<open>load\<close> returns
  for the file under it; and the same for a configuration that differs in having no GPU.
\<close>

definition populated_files :: "string \<Rightarrow> flat_index option" where
  "populated_files = snd (save flat_library populated_index ''index.bin'' Map.empty)"





section \<open>Properties\<close>

subsection \<open>The post-filter loop\<close>

lemma masked_in_filter:
  "x \<in> set (map fst (filter snd (zip irow (map (\<lambda>x. x \<in> set F) irow)))) \<Longrightarrow> x \<in> set F"
  by (auto simp: in_set_zip)

lemma filter_loop_ids:
  assumes "filter_loop D I (np_isin I F) k js (fd, fi) = Inr (fd', fi')"
      and "\<forall>row\<in>set fi. \<forall>x\<in>set row. x \<in> set F \<or> x = - 1"
    shows "\<forall>row\<in>set fi'. \<forall>x\<in>set row. x \<in> set F \<or> x = - 1"
  using assms
proof (induction js arbitrary: fd fi)
  case Nil
  then show ?case by simp
next
  case (Cons j js)
  from Cons.prems(1) obtain vm drow vd irow vi where
    vm: "get_row (np_isin I F) j = Inr vm" and
    ir: "get_row I j = Inr irow" and
    vi: "bool_index irow vm = Inr vi" and
    vd: "bool_index drow vm = Inr vd" and
    rec: "filter_loop D I (np_isin I F) k js
            (fd[j := take (nat (min (int (length vd)) k)) vd @ drop (nat (min (int (length vd)) k)) (fd ! j)],
             fi[j := take (nat (min (int (length vd)) k)) vi @ drop (nat (min (int (length vd)) k)) (fi ! j)])
          = Inr (fd', fi')"
    by (auto split: sum.splits simp: Let_def)
  from vm ir have vm_eq: "vm = map (\<lambda>x. x \<in> set F) irow"
    by (auto simp: get_row_def np_isin_def split: if_splits)
  from vi vm_eq have vi_in: "\<forall>x\<in>set vi. x \<in> set F"
    by (auto simp: bool_index_def split: if_splits dest: masked_in_filter)
  let ?n = "nat (min (int (length vd)) k)"
  have "\<forall>row\<in>set (fi[j := take ?n vi @ drop ?n (fi ! j)]). \<forall>x\<in>set row. x \<in> set F \<or> x = - 1"
  proof (intro ballI)
    fix row x assume r: "row \<in> set (fi[j := take ?n vi @ drop ?n (fi ! j)])" and x: "x \<in> set row"
    from r have "row = take ?n vi @ drop ?n (fi ! j) \<and> j < length fi \<or> row \<in> set fi"
      by (metis in_set_conv_nth length_list_update nth_list_update_eq nth_list_update_neq)
    then show "x \<in> set F \<or> x = - 1"
    proof
      assume a: "row = take ?n vi @ drop ?n (fi ! j) \<and> j < length fi"
      with x have "x \<in> set (take ?n vi) \<or> x \<in> set (drop ?n (fi ! j))" by auto
      then show ?thesis
      proof
        assume "x \<in> set (take ?n vi)"
        then have "x \<in> set vi" by (rule in_set_takeD)
        with vi_in show ?thesis by blast
      next
        assume "x \<in> set (drop ?n (fi ! j))"
        then have "x \<in> set (fi ! j)" by (rule in_set_dropD)
        moreover from a have "fi ! j \<in> set fi" by simp
        ultimately show ?thesis using Cons.prems(2) by blast
      qed
    next
      assume "row \<in> set fi"
      with x Cons.prems(2) show ?thesis by blast
    qed
  qed
  with Cons.IH[OF rec] show ?case by blast
qed


lemma search_with_filter_loop:
  assumes "search_with_filter L self h queries k filter_ids = (Inr (fd, fi), self', h')"
  shows "\<exists>D I n. filter_loop D I (np_isin I filter_ids) k [0..<n]
            (replicate n (replicate (nat k) PosInf), replicate n (replicate (nat k) (- 1)))
          = Inr (fd, fi)"
  using assms unfolding search_with_filter_def np_full_def
  by (auto split: prod.splits sum.splits if_splits simp: Let_def)

lemma masked_zip:
  "length drow = length irow \<Longrightarrow>
   zip (map fst (filter snd (zip drow (map P irow))))
       (map fst (filter snd (zip irow (map P irow))))
   = filter (\<lambda>(d, i). P i) (zip drow irow)"
  by (induction drow irow rule: list_induct2) auto

lemma masked_length:
  "length drow = length irow \<Longrightarrow>
   length (filter snd (zip drow (map P irow))) = length (filter snd (zip irow (map P irow)))"
  by (induction drow irow rule: list_induct2) auto

lemma filter_loop_result:
  assumes "distinct js"
      and "\<forall>j\<in>set js. j < length D \<and> j < length I \<and> length (D ! j) = length (I ! j)
             \<and> j < length fd \<and> j < length fi"
    shows "\<exists>fd' fi'. filter_loop D I (np_isin I F) k js (fd, fi) = Inr (fd', fi')
             \<and> length fd' = length fd \<and> length fi' = length fi
             \<and> (\<forall>j. j \<notin> set js \<longrightarrow> fd' ! j = fd ! j \<and> fi' ! j = fi ! j)
             \<and> (\<forall>j\<in>set js.
                   (let vm = map (\<lambda>x. x \<in> set F) (I ! j);
                        vd = map fst (filter snd (zip (D ! j) vm));
                        vi = map fst (filter snd (zip (I ! j) vm));
                        nv = nat (min (int (length vd)) k)
                    in fd' ! j = take nv vd @ drop nv (fd ! j)
                     \<and> fi' ! j = take nv vi @ drop nv (fi ! j)))"
  using assms
proof (induction js arbitrary: fd fi)
  case Nil
  then show ?case by simp
next
  case (Cons j js)
  define vm where "vm = map (\<lambda>x. x \<in> set F) (I ! j)"
  define vd where "vd = map fst (filter snd (zip (D ! j) vm))"
  define vi where "vi = map fst (filter snd (zip (I ! j) vm))"
  define nv where "nv = nat (min (int (length vd)) k)"
  define fd1 where "fd1 = fd[j := take nv vd @ drop nv (fd ! j)]"
  define fi1 where "fi1 = fi[j := take nv vi @ drop nv (fi ! j)]"
  from Cons.prems have j: "j < length D" "j < length I" "length (D ! j) = length (I ! j)"
    "j < length fd" "j < length fi" and jn: "j \<notin> set js" and d: "distinct js"
    by auto
  have unfold: "filter_loop D I (np_isin I F) k (j # js) (fd, fi)
      = filter_loop D I (np_isin I F) k js (fd1, fi1)"
    using j by (simp add: get_row_def np_isin_def bool_index_def Let_def
        vm_def vd_def vi_def nv_def fd1_def fi1_def)
  have pre: "\<forall>j\<in>set js. j < length D \<and> j < length I \<and> length (D ! j) = length (I ! j)
             \<and> j < length fd1 \<and> j < length fi1"
    using Cons.prems(2) by (simp add: fd1_def fi1_def)
  from Cons.IH[OF d pre] obtain fd' fi' where
    r: "filter_loop D I (np_isin I F) k js (fd1, fi1) = Inr (fd', fi')" and
    l: "length fd' = length fd1" "length fi' = length fi1" and
    out: "\<forall>j. j \<notin> set js \<longrightarrow> fd' ! j = fd1 ! j \<and> fi' ! j = fi1 ! j" and
    inn: "\<forall>j\<in>set js.
                   (let vm = map (\<lambda>x. x \<in> set F) (I ! j);
                        vd = map fst (filter snd (zip (D ! j) vm));
                        vi = map fst (filter snd (zip (I ! j) vm));
                        nv = nat (min (int (length vd)) k)
                    in fd' ! j = take nv vd @ drop nv (fd1 ! j)
                     \<and> fi' ! j = take nv vi @ drop nv (fi1 ! j))"
    by blast
  have at_j: "fd' ! j = take nv vd @ drop nv (fd ! j)" "fi' ! j = take nv vi @ drop nv (fi ! j)"
    using out jn j by (simp_all add: fd1_def fi1_def)
  have others: "\<And>i. i \<noteq> j \<Longrightarrow> fd1 ! i = fd ! i \<and> fi1 ! i = fi ! i"
    by (simp add: fd1_def fi1_def)
  show ?case
  proof (intro exI conjI)
    show "filter_loop D I (np_isin I F) k (j # js) (fd, fi) = Inr (fd', fi')"
      using unfold r by simp
    show "length fd' = length fd" using l by (simp add: fd1_def)
    show "length fi' = length fi" using l by (simp add: fi1_def)
    show "\<forall>i. i \<notin> set (j # js) \<longrightarrow> fd' ! i = fd ! i \<and> fi' ! i = fi ! i"
      using out others by auto
    show "\<forall>j\<in>set (j # js).
                   (let vm = map (\<lambda>x. x \<in> set F) (I ! j);
                        vd = map fst (filter snd (zip (D ! j) vm));
                        vi = map fst (filter snd (zip (I ! j) vm));
                        nv = nat (min (int (length vd)) k)
                    in fd' ! j = take nv vd @ drop nv (fd ! j)
                     \<and> fi' ! j = take nv vi @ drop nv (fi ! j))"
    proof
      fix i assume "i \<in> set (j # js)"
      then consider "i = j" | "i \<in> set js" "i \<noteq> j" using jn by auto
      then show "(let vm = map (\<lambda>x. x \<in> set F) (I ! i);
                        vd = map fst (filter snd (zip (D ! i) vm));
                        vi = map fst (filter snd (zip (I ! i) vm));
                        nv = nat (min (int (length vd)) k)
                    in fd' ! i = take nv vd @ drop nv (fd ! i)
                     \<and> fi' ! i = take nv vi @ drop nv (fi ! i))"
      proof cases
        case 1
        then show ?thesis using at_j by (simp add: Let_def vm_def vd_def vi_def nv_def)
      next
        case 2
        with inn others[of i] show ?thesis by (simp add: Let_def)
      qed
    qed
  qed
qed

lemma filtered_row_eq:
  fixes drow :: "'b list" and irow F :: "int list" and K :: nat
  assumes len: "length drow = length irow"
  defines "vm \<equiv> map (\<lambda>x. x \<in> set F) irow"
  defines "vd \<equiv> map fst (filter snd (zip drow vm))"
  defines "vi \<equiv> map fst (filter snd (zip irow vm))"
  defines "nv \<equiv> nat (min (int (length vd)) (int K))"
  shows "zip (take nv vd @ drop nv (replicate K sa)) (take nv vi @ drop nv (replicate K sb))
           = filtered_row_spec K (sa, sb) drow irow F
       \<and> length (take nv vd @ drop nv (replicate K sa)) = K
       \<and> length (take nv vi @ drop nv (replicate K sb)) = K"
proof -
  have lv: "length vd = length vi"
    using masked_length[OF len] by (simp add: vd_def vi_def vm_def)
  have z: "zip vd vi = survivors drow irow F"
    using masked_zip[OF len] by (simp add: vd_def vi_def vm_def survivors_def)
  have nv: "nv = min (length vd) K" by (simp add: nv_def)
  have tk: "take nv (zip vd vi) = take K (zip vd vi)"
    by (simp add: nv min_def)
  have lk: "length (take K (zip vd vi)) = nv"
    using lv by (simp add: nv min_def)
  have "zip (take nv vd @ drop nv (replicate K sa)) (take nv vi @ drop nv (replicate K sb))
      = zip (take nv vd) (take nv vi) @ zip (replicate (K - nv) sa) (replicate (K - nv) sb)"
    using lv by (simp add: nv)
  also have "\<dots> = take nv (zip vd vi) @ replicate (K - nv) (sa, sb)"
    by (simp add: take_zip zip_replicate)
  also have "\<dots> = filtered_row_spec K (sa, sb) drow irow F"
    using tk lk by (simp add: filtered_row_spec_def Let_def z[symmetric])
  finally have "zip (take nv vd @ drop nv (replicate K sa)) (take nv vi @ drop nv (replicate K sb))
           = filtered_row_spec K (sa, sb) drow irow F" .
  moreover have "length (take nv vd @ drop nv (replicate K sa)) = K" by (simp add: nv)
  moreover have "length (take nv vi @ drop nv (replicate K sb)) = K" using lv by (simp add: nv)
  ultimately show ?thesis by blast
qed

subsection \<open>Concrete runs with the stand-in library\<close>

lemma init_small: "init flat_library small_config = Inr fresh_index"
  by code_simp

lemma filtered_run:
  "search_with_filter flat_library populated_index populated_heap 2 2 [1, 2, 7]
     = (Inr ([[Num (2 / 5), Num 2]], [[2, 1]]), populated_index, populated_heap)"
  by code_simp

lemma overfetch_run:
  "search flat_library populated_index populated_heap 2 (1 * 10) None
     = (Inr ([[Num (2 / 5), Num (4 / 5), Num 2, PosInf, PosInf, PosInf, PosInf, PosInf,
               PosInf, PosInf]],
             [[2, 0, 1, - 1, - 1, - 1, - 1, - 1, - 1, - 1]]),
        populated_index, populated_heap)"
  by code_simp

subsection \<open>Filtered search returns allowed ids only\<close>

text \<open>
  C1. Whenever \<open>search_with_filter\<close> returns, every id in its id array is a member of the
  allowed-id array or the sentinel \<open>-1\<close>, for every library, object, query batch, \<open>k\<close> and
  allowed-id array.
\<close>

theorem search_with_filter_ids_allowed:
  assumes "search_with_filter L self h queries k filter_ids = (Inr (fd, fi), self', h')"
      and "row \<in> set fi" and "x \<in> set row"
    shows "x \<in> set filter_ids \<or> x = - 1"
proof -
  from search_with_filter_loop[OF assms(1)] obtain D I n where
    loop: "filter_loop D I (np_isin I filter_ids) k [0..<n]
            (replicate n (replicate (nat k) PosInf), replicate n (replicate (nat k) (- 1)))
          = Inr (fd, fi)" by blast
  have "\<forall>row\<in>set (replicate n (replicate (nat k) (- 1 :: int))). \<forall>x\<in>set row. x \<in> set filter_ids \<or> x = - 1"
    by auto
  from filter_loop_ids[OF loop this] assms(2,3) show ?thesis by blast
qed

theorem search_with_filter_ids_allowed_witness:
  "search_with_filter flat_library populated_index populated_heap 2 2 [1, 2, 7]
       = (Inr ([[Num (2 / 5), Num 2]], [[2, 1]]), populated_index, populated_heap)
   \<and> [2, 1] \<in> set [[2, 1 :: int]] \<and> (1 :: int) \<in> set [2, 1]
   \<and> ((1 :: int) \<in> set [1, 2, 7] \<or> (1 :: int) = - 1)"
proof -
  have a: "[2, 1] \<in> set [[2, 1 :: int]]" by simp
  have b: "(1 :: int) \<in> set [2, 1]" by simp
  from search_with_filter_ids_allowed[OF filtered_run a b] filtered_run a b
  show ?thesis by blast
qed


subsection \<open>Filtered search is over-fetch, filter, truncate, pad\<close>

text \<open>
  C8. \<open>search_with_filter\<close> asks the unfiltered search for \<open>k * 10\<close> results per query.
  When that search returns one row of distances and one equally long row of ids per
  query, the filtered output has one row of \<open>k\<close> slots per query, and row \<open>i\<close> pairs up
  to exactly the specification's row: the candidates with an allowed id, in the order of
  the unfiltered result, cut to the first \<open>k\<close> and padded with \<open>(+infinity, -1)\<close>. The
  object and heap are those left by the unfiltered search.
\<close>

theorem search_with_filter_refines_spec:
  assumes s: "search L self h queries (k * 10) None = (Inr (D, I), self1, h1)"
      and k: "0 \<le> k"
      and shape: "length D = length (rows (h1 ! queries))" "length I = length (rows (h1 ! queries))"
      and rowlen: "\<forall>i<length (rows (h1 ! queries)). length (D ! i) = length (I ! i)"
    shows "\<exists>fd fi. search_with_filter L self h queries k filter_ids = (Inr (fd, fi), self1, h1)
             \<and> length fd = length (rows (h1 ! queries))
             \<and> length fi = length (rows (h1 ! queries))
             \<and> (\<forall>i<length (rows (h1 ! queries)).
                   length (fd ! i) = nat k \<and> length (fi ! i) = nat k
                 \<and> zip (fd ! i) (fi ! i)
                     = filtered_row_spec (nat k) (PosInf, - 1) (D ! i) (I ! i) filter_ids)"
proof -
  define n where "n = length (rows (h1 ! queries))"
  define fd0 :: "'a fl list list" where "fd0 = replicate n (replicate (nat k) PosInf)"
  define fi0 :: "int list list" where "fi0 = replicate n (replicate (nat k) (- 1))"
  have pre: "\<forall>j\<in>set [0..<n]. j < length D \<and> j < length I \<and> length (D ! j) = length (I ! j)
             \<and> j < length fd0 \<and> j < length fi0"
    using shape rowlen by (simp add: n_def fd0_def fi0_def)
  from filter_loop_result[OF distinct_upt pre, of filter_ids k] obtain fd fi where
    r: "filter_loop D I (np_isin I filter_ids) k [0..<n] (fd0, fi0) = Inr (fd, fi)" and
    l: "length fd = length fd0" "length fi = length fi0" and
    inn: "\<forall>j\<in>set [0..<n].
                   (let vm = map (\<lambda>x. x \<in> set filter_ids) (I ! j);
                        vd = map fst (filter snd (zip (D ! j) vm));
                        vi = map fst (filter snd (zip (I ! j) vm));
                        nv = nat (min (int (length vd)) k)
                    in fd ! j = take nv vd @ drop nv (fd0 ! j)
                     \<and> fi ! j = take nv vi @ drop nv (fi0 ! j))"
    by blast
  have call: "search_with_filter L self h queries k filter_ids = (Inr (fd, fi), self1, h1)"
    using s k r by (simp add: search_with_filter_def np_full_def Let_def n_def fd0_def fi0_def)
  have rowsok: "\<forall>i<n. length (fd ! i) = nat k \<and> length (fi ! i) = nat k
                 \<and> zip (fd ! i) (fi ! i)
                     = filtered_row_spec (nat k) (PosInf, - 1) (D ! i) (I ! i) filter_ids"
  proof (intro allI impI)
    fix i assume i: "i < n"
    then have len: "length (D ! i) = length (I ! i)" using rowlen by (simp add: n_def)
    have kk: "int (nat k) = k" using k by simp
    from inn i have
      fdi: "fd ! i = (let vm = map (\<lambda>x. x \<in> set filter_ids) (I ! i);
                        vd = map fst (filter snd (zip (D ! i) vm));
                        nv = nat (min (int (length vd)) (int (nat k)))
                    in take nv vd @ drop nv (replicate (nat k) PosInf))" and
      fii: "fi ! i = (let vm = map (\<lambda>x. x \<in> set filter_ids) (I ! i);
                        vd = map fst (filter snd (zip (D ! i) vm));
                        vi = map fst (filter snd (zip (I ! i) vm));
                        nv = nat (min (int (length vd)) (int (nat k)))
                    in take nv vi @ drop nv (replicate (nat k) (- 1)))"
      by (simp_all add: Let_def fd0_def fi0_def kk)
    show "length (fd ! i) = nat k \<and> length (fi ! i) = nat k
                 \<and> zip (fd ! i) (fi ! i)
                     = filtered_row_spec (nat k) (PosInf, - 1) (D ! i) (I ! i) filter_ids"
      unfolding fdi fii Let_def
      using filtered_row_eq[OF len, where F = filter_ids and K = "nat k" and sa = PosInf and sb = "- 1"]
      by blast
  qed
  show ?thesis
    using call l rowsok by (intro exI[of _ fd] exI[of _ fi]) (simp add: n_def fd0_def fi0_def)
qed

theorem search_with_filter_refines_spec_witness:
  "search flat_library populated_index populated_heap 2 (1 * 10) None
     = (Inr ([[Num (2 / 5), Num (4 / 5), Num 2, PosInf, PosInf, PosInf, PosInf, PosInf,
               PosInf, PosInf]],
             [[2, 0, 1, - 1, - 1, - 1, - 1, - 1, - 1, - 1]]),
        populated_index, populated_heap)
   \<and> length (rows (populated_heap ! 2)) = 1
   \<and> search_with_filter flat_library populated_index populated_heap 2 1 [1, 2, 7]
       = (Inr ([[Num (2 / 5)]], [[2]]), populated_index, populated_heap)
   \<and> zip [Num (2 / 5 :: rat)] [2]
       = filtered_row_spec (nat 1) (PosInf, - 1)
           [Num (2 / 5), Num (4 / 5), Num 2, PosInf, PosInf, PosInf, PosInf, PosInf,
            PosInf, PosInf]
           [2, 0, 1, - 1, - 1, - 1, - 1, - 1, - 1, - 1] [1, 2, 7]"
proof -
  let ?D = "[[Num (2 / 5 :: rat), Num (4 / 5), Num 2, PosInf, PosInf, PosInf, PosInf, PosInf,
              PosInf, PosInf]]"
  let ?I = "[[2, 0, 1, - 1, - 1, - 1, - 1, - 1, - 1, - 1 :: int]]"
  have n: "length (rows (populated_heap ! 2)) = 1"
    by (simp add: populated_heap_def)
  have k: "(0 :: int) \<le> 1" by simp
  have shape: "length ?D = length (rows (populated_heap ! 2))"
    "length ?I = length (rows (populated_heap ! 2))"
    by (simp_all add: n)
  have rowlen: "\<forall>i<length (rows (populated_heap ! 2)). length (?D ! i) = length (?I ! i)"
    by (simp add: n)
  from search_with_filter_refines_spec[OF overfetch_run k shape rowlen, of "[1, 2, 7]"]
  obtain fd fi where
    call: "search_with_filter flat_library populated_index populated_heap 2 1 [1, 2, 7]
             = (Inr (fd, fi), populated_index, populated_heap)" and
    row: "zip (fd ! 0) (fi ! 0)
            = filtered_row_spec (nat 1) (PosInf, - 1) (?D ! 0) (?I ! 0) [1, 2, 7]"
    by (auto simp: n)
  have res: "search_with_filter flat_library populated_index populated_heap 2 1 [1, 2, 7]
       = (Inr ([[Num (2 / 5)]], [[2]]), populated_index, populated_heap)"
    by code_simp
  from call res have "fd = [[Num (2 / 5)]]" "fi = [[2]]" by simp_all
  with row have "zip [Num (2 / 5 :: rat)] [2 :: int]
       = filtered_row_spec (nat 1) (PosInf, - 1) (?D ! 0) (?I ! 0) [1, 2, 7]"
    by simp
  with overfetch_run n res show ?thesis by simp
qed


subsection \<open>The state flag under \<open>train\<close> and \<open>add\<close>\<close>

lemma sync_to_gpu_frame:
  "\<exists>g. snd (sync_to_gpu L self) = self\<lparr>gpu_index := g\<rparr>"
proof (cases "\<exists>g. snd (sync_to_gpu L self) = self\<lparr>gpu_index := Some g\<rparr>")
  case True
  then show ?thesis by blast
next
  case False
  then have "snd (sync_to_gpu L self) = self"
    by (auto simp: sync_to_gpu_def split: option.splits sum.splits if_splits)
  then have "snd (sync_to_gpu L self) = self\<lparr>gpu_index := gpu_index self\<rparr>" by simp
  then show ?thesis by blast
qed

lemma sync_to_gpu_is_trained:
  "sync_to_gpu L self = (r, self') \<Longrightarrow> is_trained self' = is_trained self"
  using sync_to_gpu_frame[of L self] by auto

lemma sync_to_gpu_error:
  "sync_to_gpu L self = (Some e, self') \<Longrightarrow> e \<noteq> untrained_error"
  by (auto simp: sync_to_gpu_def untrained_error_def missing_attribute_def
      split: option.splits sum.splits if_splits)

lemma train_success_trained:
  "train L self h v = (Inr u, self', h') \<Longrightarrow> is_trained self'"
  by (auto simp: train_def Let_def split: prod.splits option.splits sum.splits if_splits)

lemma train_failure_flag:
  "train L self h v = (Inl e, self', h') \<Longrightarrow> is_trained self' = is_trained self"
  by (auto simp: train_def Let_def split: prod.splits option.splits sum.splits if_splits
      dest: sync_to_gpu_is_trained)

lemma add_untrained:
  "\<not> is_trained self \<Longrightarrow> add L self h v ids = (Inl untrained_error, self, h)"
  by (simp add: add_def)

lemma add_trained_error:
  "is_trained self \<Longrightarrow> fst (add L self h v ids) \<noteq> Inl untrained_error"
  by (auto simp: add_def Let_def untrained_error_def missing_attribute_def
      normalize_in_place_def
      split: prod.splits option.splits sum.splits if_splits dest: sync_to_gpu_error)

lemma sync_to_gpu_error_kind:
  "sync_to_gpu L self = (Some e, self') \<Longrightarrow>
   (\<exists>msg. e = LibraryError msg) \<or> (\<exists>name. e = AttributeError name)"
  by (auto simp: sync_to_gpu_def missing_attribute_def
      split: option.splits sum.splits if_splits)

lemma normalize_in_place_error_kind:
  "normalize_in_place L h a = Inl e \<Longrightarrow> \<exists>msg. e = LibraryError msg"
  by (auto simp: normalize_in_place_def split: sum.splits)

lemma add_trained_error_kind:
  "is_trained self \<Longrightarrow> fst (add L self h v ids) = Inl e \<Longrightarrow>
   (\<exists>msg. e = LibraryError msg) \<or> (\<exists>name. e = AttributeError name)"
  by (auto simp: add_def Let_def missing_attribute_def
      split: prod.splits option.splits sum.splits if_splits
      dest: sync_to_gpu_error_kind normalize_in_place_error_kind)

lemma add_is_trained:
  "add L self h v ids = (r, self', h') \<Longrightarrow> is_trained self' = is_trained self"
  by (auto simp: add_def Let_def split: prod.splits option.splits sum.splits if_splits
      dest: sync_to_gpu_is_trained)

lemma train_small: "train flat_library fresh_index small_heap 0 = (Inr (), trained_index, populated_heap)"
  by code_simp

lemma add_small: "add flat_library trained_index populated_heap 0 None = (Inr (), populated_index, populated_heap)"
  by code_simp




lemma add_strided:
  "add flat_library trained_index strided_heap 0 None
     = (Inl (LibraryError ''array is not C-contiguous''), trained_index, strided_heap)"
  by code_simp

lemma train_strided:
  "train flat_library fresh_index strided_heap 0
     = (Inl (LibraryError ''array is not C-contiguous''), fresh_index, strided_heap)"
  by code_simp

lemma search_strided:
  "search flat_library trained_index strided_heap 0 2 None
     = (Inl (LibraryError ''array is not C-contiguous''), trained_index, strided_heap)"
  by code_simp

lemma search_fresh:
  "search flat_library fresh_index small_heap 2 1 None = (Inl none_has_no_nprobe, fresh_index, small_heap)"
  by code_simp

lemma search_mock_fresh:
  "search no_library mock_fresh small_heap 2 1 None = (Inr ([[Num 0]], [[0]]), mock_fresh, small_heap)"
  by code_simp

lemma search_mock_trained:
  "search no_library mock_trained small_heap 2 1 None = (Inr ([[Num 0]], [[0]]), mock_trained, small_heap)"
  by code_simp

lemma search_trained_empty:
  "search flat_library trained_index populated_heap 2 2 None
     = (Inr ([[PosInf, PosInf]], [[- 1, - 1]]), trained_index, populated_heap)"
  by code_simp

subsection \<open>\<open>add\<close> and the state\<close>

text \<open>
  C4. On an index that is not trained, \<open>add\<close> raises the untrained-index error (the
  \<open>ValueError\<close> "Index must be trained before adding vectors") and changes neither the
  object nor any array. After a successful \<open>train\<close> the index is trained, and on a trained
  index \<open>add\<close> never raises that error: every error it raises there is an exception of
  the library or an \<open>AttributeError\<close> for an attribute the object lacks.
\<close>

theorem add_requires_trained:
  "(\<not> is_trained self \<longrightarrow> add L self h v ids = (Inl untrained_error, self, h))
   \<and> (train L self0 h0 v0 = (Inr (), self1, h1) \<longrightarrow>
        is_trained self1 \<and> fst (add L self1 h1 v ids) \<noteq> Inl untrained_error)
   \<and> (is_trained self \<longrightarrow> fst (add L self h v ids) \<noteq> Inl untrained_error)
   \<and> (is_trained self \<and> fst (add L self h v ids) = Inl e \<longrightarrow>
        (\<exists>msg. e = LibraryError msg) \<or> (\<exists>name. e = AttributeError name))"
  using add_untrained[of self L h v ids] train_success_trained[of L self0 h0 v0 "()" self1 h1]
    add_trained_error[of self L h v ids] add_trained_error[of self1 L h1 v ids]
    add_trained_error_kind[of self L h v ids e]
  by blast

theorem add_requires_trained_witness:
  "\<not> is_trained fresh_index
   \<and> add flat_library fresh_index small_heap 0 None = (Inl untrained_error, fresh_index, small_heap)
   \<and> train flat_library fresh_index small_heap 0 = (Inr (), trained_index, populated_heap)
   \<and> is_trained trained_index
   \<and> fst (add flat_library trained_index populated_heap 0 None) \<noteq> Inl untrained_error
   \<and> fst (add flat_library trained_index strided_heap 0 None)
       = Inl (LibraryError ''array is not C-contiguous'')"
proof -
  have u: "\<not> is_trained fresh_index" by (simp add: fresh_index_def)
  have s: "fst (add flat_library trained_index strided_heap 0 None)
       = Inl (LibraryError ''array is not C-contiguous'')"
    using add_strided by simp
  from add_requires_trained[where L = flat_library and self = fresh_index and h = small_heap
      and v = 0 and ids = None and ?self0.0 = fresh_index and ?h0.0 = small_heap and ?v0.0 = 0
      and ?self1.0 = trained_index and ?h1.0 = populated_heap] u train_small s
  show ?thesis by simp
qed

subsection \<open>\<open>train\<close> and the number of samples\<close>





subsection \<open>\<open>search\<close> on an untrained index\<close>

text \<open>
  C5. \<open>search\<close> has no state check, unlike \<open>add\<close>. On a freshly constructed, untrained
  index it does not raise the untrained-index error: with the library it fails on the
  missing GPU index with an \<open>AttributeError\<close>, and without the library it returns
  arrays of zeros.
\<close>

theorem search_untrained_unguarded:
  "\<not> is_trained fresh_index
   \<and> search flat_library fresh_index small_heap 2 1 None
       = (Inl none_has_no_nprobe, fresh_index, small_heap)
   \<and> none_has_no_nprobe \<noteq> untrained_error
   \<and> \<not> is_trained mock_fresh
   \<and> search no_library mock_fresh small_heap 2 1 None
       = (Inr ([[Num 0]], [[0]]), mock_fresh, small_heap)"
  using search_fresh search_mock_fresh
  by (simp add: fresh_index_def mock_fresh_def none_has_no_nprobe_def untrained_error_def)

subsection \<open>\<open>search\<close> on a trained index without entries\<close>

text \<open>
  C7, as stated, fails: without the library, a trained index with no entries answers a
  query with distance 0 and id 0, not with the sentinel pair.
\<close>

theorem search_empty_mock_counterexample:
  "is_trained mock_trained
   \<and> len no_library mock_trained = Inr 0
   \<and> search no_library mock_trained small_heap 2 1 None
       = (Inr ([[Num 0]], [[0]]), mock_trained, small_heap)
   \<and> ([[Num (0 :: rat)]], [[0 :: int]]) \<noteq> ([[PosInf]], [[- 1]])"
  using search_mock_trained
  by (simp add: mock_trained_def mock_fresh_def len_def no_library_def)

text \<open>
  C7, amended. \<open>search\<close> writes no sentinel of its own. Without the library it returns,
  for \<open>k \<ge> 0\<close>, arrays of shape \<open>(n, k)\<close> filled with distance 0 and id 0, leaving object
  and heap as they were, and raises nothing. With the library: when normalising the query
  batch raises, \<open>search\<close> raises that error; when the batch has been normalised and the
  object has no GPU index, it raises the \<open>AttributeError\<close>; and when the batch has been
  normalised and a GPU index is present, it returns or raises exactly what the library's
  search does on the normalised queries with the chosen \<open>nprobe\<close>, so the sentinel fill of
  an empty index is the library's.
\<close>

theorem search_result_source:
  "(\<not> FAISS_AVAILABLE L \<longrightarrow> 0 \<le> k \<longrightarrow>
      search L self h q k p
        = (Inr (replicate (length (rows (h ! q))) (replicate (nat k) (Num 0)),
                replicate (length (rows (h ! q))) (replicate (nat k) 0)), self, h))
   \<and> (FAISS_AVAILABLE L \<longrightarrow> as_float32 L h q = (h1, a) \<longrightarrow>
        normalize_in_place L h1 a = Inl e \<longrightarrow>
        search L self h q k p = (Inl e, self, h1))
   \<and> (FAISS_AVAILABLE L \<longrightarrow> as_float32 L h q = (h1, a) \<longrightarrow>
        normalize_in_place L h1 a = Inr h2 \<longrightarrow> gpu_index self = None \<longrightarrow>
        search L self h q k p = (Inl none_has_no_nprobe, self, h2))
   \<and> (FAISS_AVAILABLE L \<longrightarrow> gpu_index self = Some g \<longrightarrow> as_float32 L h q = (h1, a) \<longrightarrow>
        normalize_in_place L h1 a = Inr h2 \<longrightarrow>
        fst (search L self h q k p)
          = (case gpu_search L
                    (set_nprobe L g (case p of None \<Rightarrow> nprobe (config self) | Some x \<Rightarrow> x))
                    (rows (h2 ! a)) k of
               Inl e \<Rightarrow> Inl (LibraryError e)
             | Inr r \<Rightarrow> Inr r))"
  by (auto simp: search_def np_full_def Let_def split: sum.splits prod.splits)

theorem search_result_source_witness:
  "\<not> FAISS_AVAILABLE no_library \<and> (0 :: int) \<le> 1
   \<and> search no_library mock_trained small_heap 2 1 None
        = (Inr ([[Num 0]], [[0]]), mock_trained, small_heap)
   \<and> FAISS_AVAILABLE flat_library
   \<and> gpu_index trained_index = Some (trained_cpu, 1)
   \<and> as_float32 flat_library populated_heap 2 = (populated_heap, 2)
   \<and> normalize_in_place flat_library populated_heap 2 = Inr populated_heap
   \<and> fst (search flat_library trained_index populated_heap 2 2 None)
        = Inr ([[PosInf, PosInf]], [[- 1, - 1]])
   \<and> as_float32 flat_library strided_heap 0 = (strided_heap, 0)
   \<and> normalize_in_place flat_library strided_heap 0
        = Inl (LibraryError ''array is not C-contiguous'')
   \<and> search flat_library trained_index strided_heap 0 2 None
        = (Inl (LibraryError ''array is not C-contiguous''), trained_index, strided_heap)
   \<and> gpu_index fresh_index = None
   \<and> search flat_library fresh_index populated_heap 2 2 None
        = (Inl none_has_no_nprobe, fresh_index, populated_heap)"
proof -
  have a: "\<not> FAISS_AVAILABLE no_library" by (simp add: no_library_def)
  have k: "(0 :: int) \<le> 1" by simp
  have b: "FAISS_AVAILABLE flat_library" by (simp add: flat_library_def)
  have c: "gpu_index trained_index = Some (trained_cpu, 1)"
    by (simp add: trained_index_def)
  have d: "as_float32 flat_library populated_heap 2 = (populated_heap, 2)"
    by (simp add: as_float32_def populated_heap_def)
  have n: "normalize_in_place flat_library populated_heap 2 = Inr populated_heap"
    by code_simp
  have d': "as_float32 flat_library strided_heap 0 = (strided_heap, 0)"
    by (simp add: as_float32_def strided_heap_def)
  have n': "normalize_in_place flat_library strided_heap 0
        = Inl (LibraryError ''array is not C-contiguous'')"
    by code_simp
  have g: "gpu_index fresh_index = None" by (simp add: fresh_index_def)
  have lib: "(case gpu_search flat_library
                    (set_nprobe flat_library (trained_cpu, 1) (nprobe (config trained_index)))
                    (rows (populated_heap ! 2)) 2 of
               Inl e \<Rightarrow> Inl (LibraryError e)
             | Inr r \<Rightarrow> Inr r)
        = (Inr ([[PosInf, PosInf]], [[- 1, - 1]]) :: error + rat fl list list \<times> int list list)"
    by code_simp
  note t1 = search_result_source[where L = no_library and self = mock_trained
      and h = small_heap and q = 2 and k = 1 and p = None,
      THEN conjunct1, rule_format, OF a k]
  note t2 = search_result_source[where L = flat_library and self = trained_index
      and h = strided_heap and q = 0 and k = 2 and p = None,
      THEN conjunct2, THEN conjunct1, rule_format, OF b d' n']
  note t3 = search_result_source[where L = flat_library and self = fresh_index
      and h = populated_heap and q = 2 and k = 2 and p = None,
      THEN conjunct2, THEN conjunct2, THEN conjunct1, rule_format, OF b d n g]
  note t4 = search_result_source[where L = flat_library and self = trained_index
      and h = populated_heap and q = 2 and k = 2 and p = None,
      THEN conjunct2, THEN conjunct2, THEN conjunct2, rule_format, OF b c d n]
  have e: "search no_library mock_trained small_heap 2 1 None
        = (Inr ([[Num 0]], [[0]]), mock_trained, small_heap)"
    using t1 by (simp add: small_heap_def)
  have f: "fst (search flat_library trained_index populated_heap 2 2 None)
        = Inr ([[PosInf, PosInf]], [[- 1, - 1]])"
    using t4 lib by simp
  from a k b c d n d' n' g e f t2 t3 show ?thesis by simp
qed

subsection \<open>The state never goes back to untrained\<close>

lemma search_is_trained:
  "search L self h q k p = (r, self', h') \<Longrightarrow> is_trained self' = is_trained self"
  by (auto simp: search_def Let_def split: prod.splits option.splits sum.splits if_splits)

lemma search_with_filter_is_trained:
  "search_with_filter L self h q k allowed = (r, self', h') \<Longrightarrow> is_trained self' = is_trained self"
  by (auto simp: search_with_filter_def Let_def split: prod.splits sum.splits
      dest: search_is_trained)

lemma train_is_trained:
  "train L self h v = (r, self', h') \<Longrightarrow> is_trained self \<Longrightarrow> is_trained self'"
  by (cases r) (auto dest: train_failure_flag train_success_trained)

lemma init_untrained: "init L cfg = Inr self \<Longrightarrow> \<not> is_trained self"
  by (auto simp: init_def Let_def split: if_splits sum.splits)

lemma load_trained: "load L path cfg fs = Inr self \<Longrightarrow> is_trained self = FAISS_AVAILABLE L"
  by (auto simp: load_def split: sum.splits if_splits prod.splits option.splits
      dest: init_untrained)

lemma step_length: "length (objects w) \<le> length (objects (step L w c))"
  by (cases c) (auto split: sum.splits prod.splits)

lemma step_keeps_trained:
  assumes "i < length (objects w)" and "is_trained (objects w ! i)"
  shows "is_trained (objects (step L w c) ! i)"
proof (cases c)
  case (New cfg)
  with assms show ?thesis by (auto split: sum.splits simp: nth_append)
next
  case (Train j a)
  with assms show ?thesis
    by (cases "j = i") (auto split: prod.splits dest: train_is_trained)
next
  case (Add j a ids)
  with assms show ?thesis
    by (cases "j = i") (auto split: prod.splits dest: add_is_trained)
next
  case (Search j a k p)
  with assms show ?thesis
    by (cases "j = i") (auto split: prod.splits dest: search_is_trained)
next
  case (SearchWithFilter j a k allowed)
  with assms show ?thesis
    by (cases "j = i") (auto split: prod.splits dest: search_with_filter_is_trained)
next
  case (Save j path)
  with assms show ?thesis by (auto split: prod.splits)
next
  case (Load path cfg)
  with assms show ?thesis by (auto split: sum.splits simp: nth_append)
qed

lemma run_keeps_trained:
  "i < length (objects w) \<Longrightarrow> is_trained (objects w ! i) \<Longrightarrow>
   i < length (objects (run L w cs)) \<and> is_trained (objects (run L w cs) ! i)"
proof (induction cs arbitrary: w)
  case Nil
  then show ?case by simp
next
  case (Cons c cs)
  have "i < length (objects (step L w c))"
    using Cons.prems(1) step_length[of w L c] by simp
  moreover have "is_trained (objects (step L w c) ! i)"
    using Cons.prems by (rule step_keeps_trained)
  ultimately show ?case using Cons.IH by simp
qed

lemma step_flip_is_train:
  assumes "i < length (objects w)" and "\<not> is_trained (objects w ! i)"
      and "is_trained (objects (step L w c) ! i)"
  shows "\<exists>a. c = Train i a \<and> fst (train L (objects w ! i) (arrays w) a) = Inr ()"
proof (cases c)
  case (New cfg)
  with assms show ?thesis by (auto split: sum.splits simp: nth_append)
next
  case (Train j a)
  show ?thesis
  proof (cases "j = i")
    case True
    obtain r self' h' where t: "train L (objects w ! i) (arrays w) a = (r, self', h')"
      by (cases "train L (objects w ! i) (arrays w) a") auto
    with assms Train True have tr: "is_trained self'" by simp
    have "r = Inr ()"
    proof (cases r)
      case (Inl e)
      with t train_failure_flag[of L "objects w ! i" "arrays w" a e self' h'] assms(2) tr
      show ?thesis by simp
    next
      case (Inr u)
      then show ?thesis by simp
    qed
    with t Train True show ?thesis by simp
  next
    case False
    with assms Train show ?thesis by (auto split: prod.splits if_splits)
  qed
next
  case (Add j a ids)
  with assms show ?thesis
    by (cases "j = i") (auto split: prod.splits if_splits dest: add_is_trained)
next
  case (Search j a k p)
  with assms show ?thesis
    by (cases "j = i") (auto split: prod.splits if_splits dest: search_is_trained)
next
  case (SearchWithFilter j a k allowed)
  with assms show ?thesis
    by (cases "j = i") (auto split: prod.splits if_splits dest: search_with_filter_is_trained)
next
  case (Save j path)
  with assms show ?thesis by (auto split: prod.splits if_splits)
next
  case (Load path cfg)
  with assms show ?thesis by (auto split: sum.splits simp: nth_append)
qed

lemma step_new_trained_is_load:
  assumes "length (objects w) \<le> j" and "j < length (objects (step L w c))"
      and "is_trained (objects (step L w c) ! j)"
  shows "\<exists>path cfg. c = Load path cfg"
proof (cases c)
  case (New cfg)
  with assms show ?thesis
    by (auto split: sum.splits simp: nth_append less_Suc_eq dest: init_untrained)
qed (use assms in \<open>auto split: prod.splits if_splits\<close>)

text \<open>
  C9. In a program holding any number of index objects, for every library: an object that
  is trained is still trained after every sequence of constructor, \<open>train\<close>, \<open>add\<close>,
  \<open>search\<close>, \<open>search_with_filter\<close>, \<open>save\<close> and \<open>load\<close> calls; a single call turns an existing
  untrained object into a trained one only if it is a \<open>train\<close> on that object that
  returned normally; and an object that comes into being trained was made by \<open>load\<close>.
\<close>

theorem trained_is_permanent:
  "(i < length (objects w) \<and> is_trained (objects w ! i) \<longrightarrow>
      i < length (objects (run L w cs)) \<and> is_trained (objects (run L w cs) ! i))
   \<and> (i < length (objects w) \<and> \<not> is_trained (objects w ! i)
        \<and> is_trained (objects (step L w c) ! i) \<longrightarrow>
      (\<exists>a. c = Train i a \<and> fst (train L (objects w ! i) (arrays w) a) = Inr ()))
   \<and> (length (objects w) \<le> j \<and> j < length (objects (step L w c))
        \<and> is_trained (objects (step L w c) ! j) \<longrightarrow>
      (\<exists>path cfg. c = Load path cfg))"
  using run_keeps_trained[of i w L cs] step_flip_is_train[of i w L c]
    step_new_trained_is_load[of w j L c]
  by blast

theorem trained_is_permanent_witness:
  "0 < length (objects trained_world) \<and> is_trained (objects trained_world ! 0)
   \<and> 0 < length (objects (run flat_library trained_world later_calls))
   \<and> is_trained (objects (run flat_library trained_world later_calls) ! 0)
   \<and> \<not> is_trained (objects fresh_world ! 0)
   \<and> is_trained (objects (step flat_library fresh_world (Train 0 0)) ! 0)
   \<and> fst (train flat_library (objects fresh_world ! 0) (arrays fresh_world) 0) = Inr ()
   \<and> length (objects (step flat_library trained_world (Save 0 ''index.bin''))) \<le> 1
   \<and> 1 < length (objects (step flat_library
                (step flat_library trained_world (Save 0 ''index.bin''))
                (Load ''index.bin'' small_config)))
   \<and> is_trained (objects (step flat_library
                (step flat_library trained_world (Save 0 ''index.bin''))
                (Load ''index.bin'' small_config)) ! 1)"
proof -
  have a: "0 < length (objects trained_world) \<and> is_trained (objects trained_world ! 0)"
    by (simp add: trained_world_def trained_index_def)
  have b: "0 < length (objects fresh_world) \<and> \<not> is_trained (objects fresh_world ! 0)
        \<and> is_trained (objects (step flat_library fresh_world (Train 0 0)) ! 0)"
    by code_simp
  have c: "length (objects (step flat_library trained_world (Save 0 ''index.bin''))) \<le> 1
   \<and> 1 < length (objects (step flat_library
                (step flat_library trained_world (Save 0 ''index.bin''))
                (Load ''index.bin'' small_config)))
   \<and> is_trained (objects (step flat_library
                (step flat_library trained_world (Save 0 ''index.bin''))
                (Load ''index.bin'' small_config)) ! 1)"
    by code_simp
  note t1 = trained_is_permanent[where L = flat_library and w = trained_world and i = 0
      and cs = later_calls, THEN conjunct1, rule_format, OF a]
  note t2 = trained_is_permanent[where L = flat_library and w = fresh_world and i = 0
      and c = "Train 0 0", THEN conjunct2, THEN conjunct1, rule_format, OF b]
  note t3 = trained_is_permanent[where L = flat_library
      and w = "step flat_library trained_world (Save 0 ''index.bin'')" and j = 1
      and c = "Load ''index.bin'' small_config", THEN conjunct2, THEN conjunct2,
      rule_format, OF c]
  from t2 have d: "fst (train flat_library (objects fresh_world ! 0) (arrays fresh_world) 0) = Inr ()"
    by auto
  from a b c t1 d t3 show ?thesis by blast
qed


subsection \<open>Normalisation of the caller's array\<close>















subsection \<open>\<open>load\<close> and the caller's configuration\<close>

lemma save_wide: "fst (save flat_library wide_index ''index.bin'' Map.empty) = None"
  by code_simp

lemma load_narrow: "load flat_library ''index.bin'' (default_config 64) wide_files = Inr narrow_loaded"
  by code_simp



lemma load_same: "load flat_library ''index.bin'' small_config populated_files = Inr populated_index"
  by code_simp



lemma init_fields:
  "init L cfg = Inr fresh \<Longrightarrow>
   config fresh = cfg \<and> index_dim fresh = dim cfg \<and> gpu_index fresh = None
   \<and> \<not> is_trained fresh"
  by (auto simp: init_def Let_def split: if_splits sum.splits)


lemma sync_to_gpu_fields:
  "sync_to_gpu L self = (r, self') \<Longrightarrow>
   config self' = config self \<and> index_dim self' = index_dim self
   \<and> cpu_index self' = cpu_index self \<and> gpu_resources self' = gpu_resources self
   \<and> co self' = co self"
  using sync_to_gpu_frame[of L self] by auto

lemma load_keeps_world:
  "take (length (objects w)) (objects (step L w (Load path cfg))) = objects w
   \<and> arrays (step L w (Load path cfg)) = arrays w
   \<and> files (step L w (Load path cfg)) = files w"
  by (auto split: sum.splits)

text \<open>
  C6, as stated, fails: a file saved from an index of dimension 128 loads under a
  configuration of dimension 64 without any error; the result is a trained object that
  carries the caller's configuration and the 128-dimensional index.
\<close>

theorem load_config_unchecked_counterexample:
  "fst (save flat_library wide_index ''index.bin'' Map.empty) = None
   \<and> cpu_index wide_index = Some wide_cpu \<and> ix_d wide_cpu = 128
   \<and> dim (default_config 64) = 64
   \<and> load flat_library ''index.bin'' (default_config 64) wide_files = Inr narrow_loaded
   \<and> is_trained narrow_loaded \<and> cpu_index narrow_loaded = Some wide_cpu"
  using save_wide load_narrow
  by (simp add: wide_index_def wide_cpu_def narrow_loaded_def default_config_def)

text \<open>
  C6, amended. \<open>load\<close> never compares the file with the caller's configuration. With the
  library, whenever the constructor accepts the caller's configuration, the library reads
  the file and the GPU synchronisation succeeds, \<open>load\<close> returns a new trained object that
  carries the caller's configuration and the index read, whatever dimension or \<open>m\<close> that
  index has. Without the library \<open>load\<close> is the constructor alone. \<open>load\<close> is a class
  method: it adds an object and changes no existing object, array or file.
\<close>

theorem load_ignores_blob_config:
  "(FAISS_AVAILABLE L \<and> init L cfg = Inr fresh \<and> read_index L path fs = Inr ix
      \<and> sync_to_gpu L (fresh\<lparr>cpu_index := Some ix\<rparr>) = (None, synced) \<longrightarrow>
      load L path cfg fs = Inr (synced\<lparr>is_trained := True\<rparr>)
    \<and> config synced = cfg \<and> index_dim synced = dim cfg \<and> cpu_index synced = Some ix)
   \<and> (\<not> FAISS_AVAILABLE L \<longrightarrow> load L path cfg fs = init L cfg)
   \<and> take (length (objects w)) (objects (step L w (Load path cfg))) = objects w
   \<and> arrays (step L w (Load path cfg)) = arrays w
   \<and> files (step L w (Load path cfg)) = files w"
proof (intro conjI impI)
  assume a: "FAISS_AVAILABLE L \<and> init L cfg = Inr fresh \<and> read_index L path fs = Inr ix
      \<and> sync_to_gpu L (fresh\<lparr>cpu_index := Some ix\<rparr>) = (None, synced)"
  then show "load L path cfg fs = Inr (synced\<lparr>is_trained := True\<rparr>)"
    by (simp add: load_def)
  from a have f: "config fresh = cfg \<and> index_dim fresh = dim cfg"
    using init_fields[of L cfg fresh] by simp
  from a have s: "config synced = config (fresh\<lparr>cpu_index := Some ix\<rparr>)
      \<and> index_dim synced = index_dim (fresh\<lparr>cpu_index := Some ix\<rparr>)
      \<and> cpu_index synced = cpu_index (fresh\<lparr>cpu_index := Some ix\<rparr>)"
    using sync_to_gpu_fields[of L "fresh\<lparr>cpu_index := Some ix\<rparr>" None synced] by simp
  from f s show "config synced = cfg" by simp
  from f s show "index_dim synced = dim cfg" by simp
  from s show "cpu_index synced = Some ix" by simp
next
  assume "\<not> FAISS_AVAILABLE L"
  then show "load L path cfg fs = init L cfg"
    by (simp add: load_def split: sum.splits)
next
  show "take (length (objects w)) (objects (step L w (Load path cfg))) = objects w"
    using load_keeps_world[of w L path cfg] by blast
next
  show "arrays (step L w (Load path cfg)) = arrays w"
    using load_keeps_world[of w L path cfg] by blast
next
  show "files (step L w (Load path cfg)) = files w"
    using load_keeps_world[of w L path cfg] by blast
qed

theorem load_ignores_blob_config_witness:
  "FAISS_AVAILABLE flat_library
   \<and> init flat_library (default_config 64) = Inr (narrow_loaded\<lparr>is_trained := False,
        cpu_index := Some \<lparr>ix_d = 64, ix_nlist = 16384, ix_trained = False, ix_entries = []\<rparr>,
        gpu_index := None\<rparr>)
   \<and> read_index flat_library ''index.bin'' wide_files = Inr wide_cpu
   \<and> sync_to_gpu flat_library (narrow_loaded\<lparr>is_trained := False, gpu_index := None\<rparr>)
        = (None, narrow_loaded\<lparr>is_trained := False\<rparr>)
   \<and> load flat_library ''index.bin'' (default_config 64) wide_files = Inr narrow_loaded
   \<and> config narrow_loaded = default_config 64 \<and> index_dim narrow_loaded = 64
   \<and> cpu_index narrow_loaded = Some wide_cpu \<and> ix_d wide_cpu = 128
   \<and> \<not> FAISS_AVAILABLE no_library
   \<and> load no_library ''index.bin'' (default_config 4) () = Inr mock_fresh"
proof -
  let ?fresh = "narrow_loaded\<lparr>is_trained := False,
        cpu_index := Some \<lparr>ix_d = 64, ix_nlist = 16384, ix_trained = False, ix_entries = []\<rparr>,
        gpu_index := None\<rparr>"
  have a: "FAISS_AVAILABLE flat_library" by (simp add: flat_library_def)
  have b: "init flat_library (default_config 64) = Inr ?fresh" by code_simp
  have c: "read_index flat_library ''index.bin'' wide_files = Inr wide_cpu" by code_simp
  have d: "sync_to_gpu flat_library (narrow_loaded\<lparr>is_trained := False, gpu_index := None\<rparr>)
        = (None, narrow_loaded\<lparr>is_trained := False\<rparr>)" by code_simp
  have e: "?fresh\<lparr>cpu_index := Some wide_cpu\<rparr> = narrow_loaded\<lparr>is_trained := False, gpu_index := None\<rparr>"
    by (simp add: narrow_loaded_def)
  have f: "narrow_loaded\<lparr>is_trained := False\<rparr>\<lparr>is_trained := True\<rparr> = narrow_loaded"
    by (simp add: narrow_loaded_def)
  have g: "\<not> FAISS_AVAILABLE no_library" by (simp add: no_library_def)
  have h: "init no_library (default_config 4) = Inr mock_fresh" by code_simp
  have pre: "FAISS_AVAILABLE flat_library \<and> init flat_library (default_config 64) = Inr ?fresh
      \<and> read_index flat_library ''index.bin'' wide_files = Inr wide_cpu
      \<and> sync_to_gpu flat_library (?fresh\<lparr>cpu_index := Some wide_cpu\<rparr>)
          = (None, narrow_loaded\<lparr>is_trained := False\<rparr>)"
    using a b c d e by simp
  note t1 = load_ignores_blob_config[where L = flat_library and cfg = "default_config 64"
      and path = "''index.bin''" and fs = wide_files, THEN conjunct1, rule_format, OF pre]
  note t2 = load_ignores_blob_config[where L = no_library and cfg = "default_config 4"
      and path = "''index.bin''" and fs = "()", THEN conjunct2, THEN conjunct1, rule_format,
      OF g]
  from t1 f have l: "load flat_library ''index.bin'' (default_config 64) wide_files = Inr narrow_loaded"
    by simp
  from t2 h have m: "load no_library ''index.bin'' (default_config 4) () = Inr mock_fresh"
    by simp
  from a b c d g l m show ?thesis
    by (simp add: narrow_loaded_def wide_cpu_def default_config_def)
qed

subsection \<open>\<open>save\<close>, \<open>load\<close>, \<open>search\<close>\<close>







lemma sync_establishes:
  assumes "FAISS_AVAILABLE L" and "constructed self" and "cpu_index self = Some ci"
      and "gpu_resources self = [] \<longrightarrow> gpu_index self = None"
      and "sync_to_gpu L self = (None, self')"
    shows "constructed self' \<and> in_sync L self'"
  using assms
  by (auto simp: sync_to_gpu_def constructed_def in_sync_def
      split: if_splits option.splits sum.splits)

lemma flag_irrelevant:
  "in_sync L (self\<lparr>is_trained := b\<rparr>) = in_sync L self"
  "constructed (self\<lparr>is_trained := b\<rparr>) = constructed self"
  by (simp_all add: in_sync_def constructed_def cong: option.case_cong sum.case_cong)

lemma train_establishes_sync:
  assumes "FAISS_AVAILABLE L" and "constructed self"
      and "gpu_resources self = [] \<longrightarrow> gpu_index self = None"
      and "train L self h v = (Inr (), self', h')"
    shows "constructed self' \<and> in_sync L self'"
proof -
  from assms(1,4) obtain ci ci' s2 where
    ci: "cpu_index self = Some ci" and
    s: "sync_to_gpu L (self\<lparr>cpu_index := Some ci'\<rparr>) = (None, s2)" and
    r: "self' = s2\<lparr>is_trained := True\<rparr>"
    by (auto simp: train_def Let_def split: prod.splits option.splits sum.splits)
  have "constructed (self\<lparr>cpu_index := Some ci'\<rparr>)"
    using assms(2) by (simp add: constructed_def)
  with sync_establishes[OF assms(1) this _ _ s, of ci'] assms(3)
  have "constructed s2 \<and> in_sync L s2" by simp
  with r show ?thesis by (simp add: flag_irrelevant)
qed

lemma add_establishes_sync:
  assumes "FAISS_AVAILABLE L" and "constructed self"
      and "gpu_resources self = [] \<longrightarrow> gpu_index self = None"
      and "add L self h v ids = (Inr (), self', h')"
    shows "constructed self' \<and> in_sync L self'"
proof -
  from assms(1,4) obtain ci ci' s2 where
    ci: "cpu_index self = Some ci" and
    s: "sync_to_gpu L (self\<lparr>cpu_index := Some ci'\<rparr>) = (None, s2)" and
    r: "self' = s2"
    by (auto simp: add_def Let_def split: prod.splits option.splits sum.splits if_splits)
  have "constructed (self\<lparr>cpu_index := Some ci'\<rparr>)"
    using assms(2) by (simp add: constructed_def)
  with sync_establishes[OF assms(1) this _ _ s, of ci'] assms(3) r
  show ?thesis by simp
qed




end
